theory Spec2Isabelle
  imports Complex_Main "HOL-Library.AList"
begin

section \<open>Cross-modal retrieval scripts: evaluation and training entry points\<close>

text \<open>
  The development embeds the two scripts of the repository,
  \<^verbatim>\<open>src/evaluate_text_to_image_methods.py\<close> (the evaluation entry point and its helper
  \<^verbatim>\<open>extract_embeddings\<close>) and \<^verbatim>\<open>src/task_Resnet_BERT_text_to_Image.py\<close> (the training
  entry point). Python exceptions are values of the type \<open>error\<close>; a function that can
  raise returns \<open>error + 'a\<close> with \<open>Inl\<close> for the exception. Array entries are real
  numbers: rounding to float32 and NaN are outside the model.
\<close>

subsection \<open>Exceptions\<close>

datatype error =
    FileNotFoundError string
  | ValueError
  | IndexError
  | KeyError
  | RuntimeError
  | AssertionError
  | UnpicklingError
  | OSError

definition bind :: "error + 'a \<Rightarrow> ('a \<Rightarrow> error + 'b) \<Rightarrow> error + 'b" where
  "bind m f = (case m of Inl e \<Rightarrow> Inl e | Inr x \<Rightarrow> f x)"

subsection \<open>Arrays and tensors\<close>

text \<open>
  A two-dimensional array (a numpy array or a torch tensor of shape \<open>(len, ncols)\<close>) is
  its rows together with the length of a row, so that the shape \<open>(0, d)\<close> keeps its \<open>d\<close>.
\<close>

record ndarray =
  ncols :: nat
  rows :: "real list list"

definition len :: "ndarray \<Rightarrow> nat" where
  "len a = length (rows a)"

definition np_zeros :: "nat \<Rightarrow> nat \<Rightarrow> ndarray" where
  "np_zeros n d = \<lparr>ncols = d, rows = replicate n (replicate d 0)\<rparr>"

text \<open>\<^verbatim>\<open>a[:n, :]\<close> on a two-dimensional array: the first \<open>n\<close> rows (all of them when there are fewer).\<close>

definition slice_rows :: "ndarray \<Rightarrow> nat \<Rightarrow> ndarray" where
  "slice_rows a n = a\<lparr>rows := take n (rows a)\<rparr>"

text \<open>
  Broadcasting a value \<open>v\<close> to the shape \<open>(L, C)\<close> of an assignment target: every
  dimension of \<open>v\<close> is the target's or 1; otherwise numpy raises ValueError (\<open>None\<close> here).
\<close>

definition broadcast_to :: "ndarray \<Rightarrow> nat \<Rightarrow> nat \<Rightarrow> real list list option" where
  "broadcast_to v L C =
     (if (len v = L \<or> len v = 1) \<and> (ncols v = C \<or> ncols v = 1)
      then Some (map (\<lambda>r. if ncols v = C then r else replicate C (case r of [] \<Rightarrow> 0 | x # _ \<Rightarrow> x))
                  (if len v = L then rows v else replicate L (case rows v of [] \<Rightarrow> [] | r # _ \<Rightarrow> r)))
      else None)"

text \<open>
  \<^verbatim>\<open>a[start:stop] = v\<close> for \<open>0 \<le> start \<le> stop\<close>: the slice is clipped to the array
  (numpy never raises on a slice that runs past the end), and \<open>v\<close> is broadcast to the
  clipped slice.
\<close>

definition set_rows :: "ndarray \<Rightarrow> nat \<Rightarrow> nat \<Rightarrow> ndarray \<Rightarrow> error + ndarray" where
  "set_rows a start stop v =
     (let lo = min start (len a); hi = min stop (len a) in
      case broadcast_to v (hi - lo) (ncols a) of
        None \<Rightarrow> Inl ValueError
      | Some rs \<Rightarrow> Inr (a\<lparr>rows := take lo (rows a) @ rs @ drop hi (rows a)\<rparr>))"

text \<open>
  The text batch is a three-dimensional tensor of shape \<open>(len, dim1, dim2)\<close>: per image,
  \<open>dim1\<close> sentence vectors of \<open>dim2\<close> components.
\<close>

record tensor3 =
  dim1 :: nat
  dim2 :: nat
  items :: "real list list list"

definition len3 :: "tensor3 \<Rightarrow> nat" where
  "len3 t = length (items t)"

definition slice_items :: "tensor3 \<Rightarrow> nat \<Rightarrow> tensor3" where
  "slice_items t n = t\<lparr>items := take n (items t)\<rparr>"

text \<open>
  \<^verbatim>\<open>t.reshape(r, c)\<close>: the elements in row-major order, regrouped in \<open>r\<close> rows of \<open>c\<close>;
  torch raises RuntimeError when the number of elements is not \<open>r * c\<close>.
\<close>

definition reshape :: "tensor3 \<Rightarrow> nat \<Rightarrow> nat \<Rightarrow> error + ndarray" where
  "reshape t r c =
     (if len3 t * dim1 t * dim2 t = r * c
      then Inr \<lparr>ncols = c,
                rows = map (\<lambda>i. take c (drop (i * c) (concat (concat (items t))))) [0..<r]\<rparr>
      else Inl RuntimeError)"


subsection \<open>The embedding model\<close>

text \<open>
  The networks (\<^verbatim>\<open>models_v2.TripletTextImage\<close> and its two embedding nets) are not among
  the sources. A model is its parameters (the state dict, of any type \<open>'w\<close>) and the
  function its architecture computes from them; \<^verbatim>\<open>get_embedding_pair\<close> may raise, as any
  forward pass on a wrongly shaped input does.
\<close>

record 'w model =
  weights :: 'w
  embed :: "'w \<Rightarrow> ndarray \<Rightarrow> ndarray \<Rightarrow> error + (ndarray \<times> ndarray)"

definition get_embedding_pair :: "'w model \<Rightarrow> ndarray \<Rightarrow> ndarray \<Rightarrow> error + (ndarray \<times> ndarray)" where
  "get_embedding_pair m images texts = embed m (weights m) images texts"

definition load_state_dict :: "'w model \<Rightarrow> 'w \<Rightarrow> 'w model" where
  "load_state_dict m sd = m\<lparr>weights := sd\<rparr>"

subsection \<open>\<^verbatim>\<open>extract_embeddings\<close> (evaluation script, lines 27-46)\<close>

text \<open>
  A dataloader is the list of the batches it yields, each a pair of an image array and a text
  tensor. The loop of lines 34-44 threads the two result arrays and the offset \<open>k\<close>. The last
  argument is not a variable of the Python code: it records each slice assignment the loop
  performs, as (array, start, stop) with the bounds as written in the source, so that
  statements about which rows are written can be made.
\<close>

type_synonym batch = "ndarray \<times> tensor3"

datatype target = Image_embeddings | Text_embeddings

type_synonym slice_write = "target \<times> nat \<times> nat"

fun extract_loop ::
  "'w model \<Rightarrow> nat \<Rightarrow> batch list \<Rightarrow> ndarray \<Rightarrow> ndarray \<Rightarrow> nat \<Rightarrow> slice_write list
     \<Rightarrow> error + (ndarray \<times> ndarray \<times> slice_write list)" where
  "extract_loop model num_samples [] image_embeddings text_embeddings k writes =
     Inr (image_embeddings, text_embeddings, writes)"
| "extract_loop model num_samples ((images, texts) # dataloader) image_embeddings text_embeddings k writes =
     (let images = slice_rows images num_samples;
          texts = slice_items texts num_samples
      in bind (reshape texts (len3 texts * 5) 300) (\<lambda>text_batch.
         bind (get_embedding_pair model images text_batch) (\<lambda>(im_emb, text_emb).
         bind (set_rows image_embeddings k (k + len images) im_emb) (\<lambda>image_embeddings.
         bind (set_rows text_embeddings k (k + len3 texts * 5) text_emb) (\<lambda>text_embeddings.
         extract_loop model num_samples dataloader image_embeddings text_embeddings (k + len images)
           (writes @ [(Image_embeddings, k, k + len images),
                      (Text_embeddings, k, k + len3 texts * 5)]))))))"

text \<open>
  The whole function body. \<open>cuda\<close> is the module-level flag \<^verbatim>\<open>torch.cuda.is_available()\<close>;
  \<^verbatim>\<open>model.to('cuda')\<close> raises when there is no such device, and moving tensors to the
  device does not change their values. \<open>out_size\<close> and \<open>model_id\<close> are parameters of the
  Python function that its body never reads.
\<close>

definition extract_run ::
  "bool \<Rightarrow> batch list \<Rightarrow> 'w model \<Rightarrow> nat \<Rightarrow> string \<Rightarrow> nat
     \<Rightarrow> error + (ndarray \<times> ndarray \<times> slice_write list)" where
  "extract_run cuda dataloader model out_size model_id num_samples =
     (if \<not> cuda then Inl RuntimeError
      else extract_loop model num_samples dataloader
             (np_zeros num_samples 1024) (np_zeros (num_samples * 5) 1024) 0 [])"

definition extract_embeddings ::
  "bool \<Rightarrow> batch list \<Rightarrow> 'w model \<Rightarrow> nat \<Rightarrow> string \<Rightarrow> nat \<Rightarrow> error + (ndarray \<times> ndarray)" where
  "extract_embeddings cuda dataloader model out_size model_id num_samples =
     bind (extract_run cuda dataloader model out_size model_id num_samples)
       (\<lambda>(image_embeddings, text_embeddings, writes). Inr (image_embeddings, text_embeddings))"

definition extract_writes ::
  "bool \<Rightarrow> batch list \<Rightarrow> 'w model \<Rightarrow> nat \<Rightarrow> string \<Rightarrow> nat \<Rightarrow> error + slice_write list" where
  "extract_writes cuda dataloader model out_size model_id num_samples =
     bind (extract_run cuda dataloader model out_size model_id num_samples)
       (\<lambda>(image_embeddings, text_embeddings, writes). Inr writes)"

text \<open>How many of the recorded slice assignments to array \<open>a\<close> cover row \<open>r\<close>.\<close>

definition times_written :: "slice_write list \<Rightarrow> target \<Rightarrow> nat \<Rightarrow> nat" where
  "times_written writes a r =
     length (filter (\<lambda>(b, start, stop). b = a \<and> start \<le> r \<and> r < stop) writes)"

text \<open>Every recorded slice ends inside its array (of \<open>n_img\<close> and \<open>n_txt\<close> rows).\<close>

definition in_bounds :: "slice_write list \<Rightarrow> nat \<Rightarrow> nat \<Rightarrow> bool" where
  "in_bounds writes n_img n_txt =
     list_all (\<lambda>(b, start, stop). stop \<le> (case b of Image_embeddings \<Rightarrow> n_img | Text_embeddings \<Rightarrow> n_txt)) writes"

subsection \<open>Strings and the constants of the evaluation script (lines 50-65, 89, 111)\<close>

text \<open>\<^verbatim>\<open>str(n)\<close> for a non-negative integer: its decimal digits.\<close>

function str :: "nat \<Rightarrow> string" where
  "str n = (if n < 10 then [''0123456789'' ! n] else str (n div 10) @ [''0123456789'' ! (n mod 10)])"
  by pat_completeness auto
termination
  by (relation "measure (\<lambda>n. n)") auto

definition ROOT_PATH :: string where
  "ROOT_PATH = ''../../data/''"

definition TEST_IMG_EMB :: string where
  "TEST_IMG_EMB = ROOT_PATH @ ''Flickr30k/test_FasterRCNN_features.pkl''"

definition TEST_TEXT_EMB :: string where
  "TEST_TEXT_EMB = ROOT_PATH @ ''Flickr30k/test_fasttext_features.pkl''"

definition out_size_eval :: nat where
  "out_size_eval = 4096"

definition model_id_eval :: string where
  "model_id_eval =
     (let base = ''TextToImage''; text_aggregation = ''mean''; image_features = ''FasterRCNN'';
          info = ''out_size_'' @ str out_size_eval
      in base @ ''_'' @ image_features @ ''_'' @ text_aggregation @ ''_textagg_'' @ info)"


definition test_json :: string where
  "test_json = ROOT_PATH @ ''Flickr30k/test.json''"

definition images_dir :: string where
  "images_dir = ROOT_PATH @ ''Flickr30k/flickr30k-images/''"

definition num_samples_eval :: nat where
  "num_samples_eval = 1000"

definition k_eval :: nat where
  "k_eval = 5"

subsection \<open>Files\<close>

text \<open>
  The annotation file is a JSON list of items, each with a file name and its sentences; only
  the keys the script reads are kept. A checkpoint holds the three entries the scripts read.
\<close>

record sentence =
  raw :: string

record item =
  filename :: string
  sentences :: "sentence list"

record ('w, 'o) checkpoint =
  model_state_dict :: 'w
  optimizer :: 'o
  epoch :: int

datatype ('w, 'o) fs_entry =
    Checkpoint "('w, 'o) checkpoint"
  | Json "item list"
  | Jpeg
  | Pickle
  | Directory

type_synonym ('w, 'o) file_system = "string \<Rightarrow> ('w, 'o) fs_entry option"

definition path_exists :: "('w, 'o) file_system \<Rightarrow> string \<Rightarrow> bool" where
  "path_exists fs p = (fs p \<noteq> None)"

text \<open>\<^verbatim>\<open>torch.load(p)\<close>: the checkpoint stored at \<open>p\<close>.\<close>

definition torch_load :: "('w, 'o) file_system \<Rightarrow> string \<Rightarrow> error + ('w, 'o) checkpoint" where
  "torch_load fs p =
     (case fs p of
        None \<Rightarrow> Inl (FileNotFoundError p)
      | Some (Checkpoint c) \<Rightarrow> Inr c
      | Some Directory \<Rightarrow> Inl OSError
      | Some _ \<Rightarrow> Inl UnpicklingError)"



subsection \<open>Python lists and dictionaries\<close>

text \<open>\<^verbatim>\<open>xs[i]\<close>: an index below zero counts from the end, one out of range raises IndexError.\<close>

definition py_index :: "'a list \<Rightarrow> int \<Rightarrow> error + 'a" where
  "py_index xs i =
     (if 0 \<le> i \<and> i < int (length xs) then Inr (xs ! nat i)
      else if i < 0 \<and> - int (length xs) \<le> i then Inr (xs ! nat (int (length xs) + i))
      else Inl IndexError)"

text \<open>
  A dictionary keeps its keys in insertion order; \<^verbatim>\<open>d[key] = v\<close> replaces the value of a key
  already there in place and appends a new key otherwise, which is \<^const>\<open>AList.update\<close> on
  the list of its entries. \<^verbatim>\<open>list(d)\<close> is the list of keys, \<^verbatim>\<open>d[key]\<close> raises KeyError.
\<close>

type_synonym ('k, 'v) dict = "('k \<times> 'v) list"

definition keys :: "('k, 'v) dict \<Rightarrow> 'k list" where
  "keys d = map fst d"

definition dict_get :: "('k, 'v) dict \<Rightarrow> 'k \<Rightarrow> error + 'v" where
  "dict_get d key = (case map_of d key of None \<Rightarrow> Inl KeyError | Some v \<Rightarrow> Inr v)"

text \<open>A comprehension \<^verbatim>\<open>[f(x) for x in xs]\<close> whose \<open>f\<close> can raise stops at the first exception.\<close>

fun traverse :: "('a \<Rightarrow> error + 'b) \<Rightarrow> 'a list \<Rightarrow> error + 'b list" where
  "traverse f [] = Inr []"
| "traverse f (x # xs) = bind (f x) (\<lambda>y. bind (traverse f xs) (\<lambda>ys. Inr (y # ys)))"

subsection \<open>Ground truth and labels (lines 89-99 and 104-107)\<close>

text \<open>\<^verbatim>\<open>data = data[:num_samples]\<close>.\<close>

definition first_samples :: "item list \<Rightarrow> item list" where
  "first_samples data = take num_samples_eval data"

text \<open>The inner loop of lines 97-99.\<close>

fun sentence_loop :: "sentence list \<Rightarrow> (nat, string) dict \<Rightarrow> nat \<Rightarrow> (nat, string) dict \<times> nat" where
  "sentence_loop [] dict_sentences count = (dict_sentences, count)"
| "sentence_loop (sentence # rest) dict_sentences count =
     sentence_loop rest (AList.update count (raw sentence) dict_sentences) (count + 1)"

text \<open>The loop of lines 95-99.\<close>

fun ground_truth_loop ::
  "item list \<Rightarrow> (string, string list) dict \<Rightarrow> (nat, string) dict \<Rightarrow> nat
     \<Rightarrow> (string, string list) dict \<times> (nat, string) dict \<times> nat" where
  "ground_truth_loop [] gt dict_sentences count = (gt, dict_sentences, count)"
| "ground_truth_loop (item # data) gt dict_sentences count =
     (let gt = AList.update (filename item) (map raw (sentences item)) gt;
          (dict_sentences, count) = sentence_loop (sentences item) dict_sentences count
      in ground_truth_loop data gt dict_sentences count)"

definition ground_truth ::
  "item list \<Rightarrow> (string, string list) dict \<times> (nat, string) dict \<times> nat" where
  "ground_truth data = ground_truth_loop data [] [] 0"

text \<open>Lines 105 and 106.\<close>

definition image_labels :: "item list \<Rightarrow> int list" where
  "image_labels data = map int [1..<length data + 1]"

definition text_labels :: "item list \<Rightarrow> int list" where
  "text_labels data = concat (map (\<lambda>j. map (\<lambda>i. int j) [0..<5]) [1..<length data + 1])"

subsection \<open>Nearest neighbours (lines 109-118)\<close>









subsection \<open>The metric (lines 125-136)\<close>

text \<open>
  Modelled from the spec: \<^verbatim>\<open>evaluation_metrics.mapk\<close> is imported by the evaluation script
  and is not among the sources. The spec calls mAP@k the mean average precision computed
  over the top-k retrieved results per query. The model is the usual average precision at
  \<open>k\<close>: over the first \<open>k\<close> predictions, the precision at each position that holds a relevant
  label not predicted before, summed and divided by the smaller of \<open>k\<close> and the number of
  relevant labels; a query with no relevant label, and \<open>k = 0\<close>, score 0. The spec does not
  say what the mean over no query at all is: it is taken to be 0.
\<close>

fun apk_loop :: "'a list \<Rightarrow> 'a list \<Rightarrow> 'a list \<Rightarrow> nat \<Rightarrow> real \<Rightarrow> real \<Rightarrow> real" where
  "apk_loop actual [] seen i num_hits score = score"
| "apk_loop actual (p # predicted) seen i num_hits score =
     (if p \<in> set actual \<and> p \<notin> set seen
      then apk_loop actual predicted (seen @ [p]) (i + 1) (num_hits + 1)
             (score + (num_hits + 1) / (real i + 1))
      else apk_loop actual predicted (seen @ [p]) (i + 1) num_hits score)"

definition apk :: "'a list \<Rightarrow> 'a list \<Rightarrow> nat \<Rightarrow> real" where
  "apk actual predicted k =
     (if actual = [] \<or> k = 0 then 0
      else apk_loop actual (take k predicted) [] 0 0 0 / real (min (length actual) k))"

definition mean :: "real list \<Rightarrow> real" where
  "mean xs = (if xs = [] then 0 else sum_list xs / real (length xs))"

definition mapk :: "'a list list \<Rightarrow> 'a list list \<Rightarrow> nat \<Rightarrow> real" where
  "mapk actual predicted k = mean (map (\<lambda>(a, p). apk a p k) (zip actual predicted))"

text \<open>Lines 126-132: the labels of the retrieved positions.\<close>

definition predicted_labels :: "int list \<Rightarrow> int list list \<Rightarrow> error + int list list" where
  "predicted_labels labels I =
     traverse (\<lambda>k_predictions. traverse (\<lambda>i. py_index labels i) k_predictions) I"

text \<open>Line 134.\<close>

definition t_labels :: "int list \<Rightarrow> int list list" where
  "t_labels labels = map (\<lambda>i. [i]) labels"

text \<open>Lines 126-135 for given labels and search result.\<close>

definition compute_map_k :: "item list \<Rightarrow> int list list \<Rightarrow> error + real" where
  "compute_map_k data I =
     bind (predicted_labels (image_labels data) I) (\<lambda>image_labels_pred.
       Inr (mapk (t_labels (text_labels data)) image_labels_pred k_eval))"

subsection \<open>Qualitative results (lines 138-168)\<close>



text \<open>The file name of a label, lines 151-153: \<^verbatim>\<open>list(gt)[gt_image_id - 1]\<close>.\<close>

definition filename_of_label :: "(string, string list) dict \<Rightarrow> int \<Rightarrow> error + string" where
  "filename_of_label gt gt_image_id = py_index (keys gt) (gt_image_id - 1)"


subsection \<open>The evaluation entry point (lines 49-168)\<close>

text \<open>
  What a run depends on besides the code: the files, whether a CUDA device is there, the
  freshly constructed model, and the classes of the repository that are not among the
  sources. \<^verbatim>\<open>datasets.Flickr30k\<close> is one of them: its constructor is a parameter that gives
  the dataset or raises.
\<close>

record dataset =
  length_dataset :: nat
  all_images :: ndarray
  all_texts :: tensor3

definition between_rows :: "ndarray \<Rightarrow> nat \<Rightarrow> nat \<Rightarrow> ndarray" where
  "between_rows a lo hi = a\<lparr>rows := take (hi - lo) (drop lo (rows a))\<rparr>"

definition between_items :: "tensor3 \<Rightarrow> nat \<Rightarrow> nat \<Rightarrow> tensor3" where
  "between_items t lo hi = t\<lparr>items := take (hi - lo) (drop lo (items t))\<rparr>"

text \<open>
  \<^verbatim>\<open>torch.utils.data.DataLoader(dataset, batch_size, shuffle=False)\<close>: the samples in order,
  cut in batches of \<open>batch_size\<close>; a batch size of 0 is refused.
\<close>

definition DataLoader :: "dataset \<Rightarrow> nat \<Rightarrow> error + batch list" where
  "DataLoader ds batch_size =
     (if batch_size = 0 then Inl ValueError
      else Inr (map (\<lambda>b. (between_rows (all_images ds) (b * batch_size) ((b + 1) * batch_size),
                          between_items (all_texts ds) (b * batch_size) ((b + 1) * batch_size)))
                  [0..<(len (all_images ds) + batch_size - 1) div batch_size]))"

record ('w, 'o) world =
  fs :: "('w, 'o) file_system"
  cuda :: bool
  TripletTextImage :: "'w model"

record ('w, 'o) eval_world = "('w, 'o) world" +
  Flickr30k :: "string \<Rightarrow> string \<Rightarrow> error + dataset"
  random_choice :: "nat list \<Rightarrow> nat \<Rightarrow> nat list"




subsection \<open>The training entry point (training script, lines 26-113)\<close>

definition OUTPUT_MODEL_DIR :: string where
  "OUTPUT_MODEL_DIR = ''./models/''"

definition TRAIN_TEXT_EMB :: string where
  "TRAIN_TEXT_EMB = ROOT_PATH @ ''Flickr30k/train_bert_features.pkl''"

text \<open>
  The training script calls the path of the validation features \<^verbatim>\<open>TEST_TEXT_EMB\<close>; it is
  \<open>VAL_TEXT_EMB\<close> here, the name \<open>TEST_TEXT_EMB\<close> being the evaluation script's.
\<close>

definition VAL_TEXT_EMB :: string where
  "VAL_TEXT_EMB = ROOT_PATH @ ''Flickr30k/val_bert_features.pkl''"

definition out_size_train :: nat where
  "out_size_train = 1000"

definition model_id_train :: string where
  "model_id_train =
     (let base = ''TextToImage''; text_aggregation = ''BERT''; image_features = ''Resnet'';
          info = ''out_size_'' @ str out_size_train
      in base @ ''_'' @ image_features @ ''_'' @ text_aggregation @ ''_textagg_'' @ info)"

text \<open>\<^verbatim>\<open>os.makedirs(p)\<close>.\<close>

definition makedirs :: "('w, 'o) file_system \<Rightarrow> string \<Rightarrow> ('w, 'o) file_system" where
  "makedirs files p = files(p \<mapsto> Directory)"

text \<open>
  The dataset classes and the optimizer's fresh state are parameters as well: the datasets
  are of any types \<open>'d\<close> and \<open>'t\<close>, the optimizer state of type \<open>'o\<close>.
\<close>

record ('w, 'o, 'd, 't) train_world = "('w, 'o) world" +
  Flickr30kEndToEnd :: "string \<Rightarrow> string \<Rightarrow> string \<Rightarrow> error + 'd"
  TripletFlickr30kTextToImgEndToEnd :: "'d \<Rightarrow> string \<Rightarrow> error + 't"
  Adam :: 'o

text \<open>
  \<^verbatim>\<open>train.fit\<close> is not among the sources: a run of the training script that reaches line 112
  ends in the call of \<open>fit\<close>, and that call (its arguments) is the result of the model.
  The two dataloaders (batch size 8) are passed on as the triplet datasets they wrap; the loss,
  the scheduler and the learning rate are constants of the call and are left out, as are the
  messages printed and the experiment tracker started when the module is imported.
\<close>

record ('w, 'o, 't) fit_call =
  triplet_train :: 't
  triplet_test :: 't
  fit_model :: "'w model"
  fit_optimizer :: 'o
  n_epochs :: nat
  log_interval :: nat
  fit_model_id :: string
  start_epoch :: int

text \<open>Lines 89-97.\<close>

definition restore_checkpoint ::
  "('w, 'o) file_system \<Rightarrow> 'w model \<Rightarrow> 'o \<Rightarrow> error + ('w model \<times> 'o \<times> int)" where
  "restore_checkpoint files model optim =
     (if path_exists files (OUTPUT_MODEL_DIR @ model_id_train @ ''.pth'')
      then bind (torch_load files (OUTPUT_MODEL_DIR @ model_id_train @ ''.pth'')) (\<lambda>checkpoint.
             Inr (load_state_dict model (model_state_dict checkpoint), optimizer checkpoint,
                  epoch checkpoint))
      else Inr (model, optim, 0))"

definition main_train ::
  "('w, 'o, 'd, 't) train_world \<Rightarrow> error + (('w, 'o) file_system \<times> ('w, 'o, 't) fit_call)" where
  "main_train w =
     (let files = (if \<not> path_exists (fs w) OUTPUT_MODEL_DIR then makedirs (fs w) OUTPUT_MODEL_DIR
                   else fs w)
      in bind (Flickr30kEndToEnd w ROOT_PATH TRAIN_TEXT_EMB ''train'') (\<lambda>train_dataset.
         bind (Flickr30kEndToEnd w ROOT_PATH VAL_TEXT_EMB ''test'') (\<lambda>test_dataset.
         bind (TripletFlickr30kTextToImgEndToEnd w train_dataset ''train'') (\<lambda>train_dataset_triplet.
         bind (TripletFlickr30kTextToImgEndToEnd w test_dataset ''test'') (\<lambda>test_dataset_triplet.
         bind (restore_checkpoint files (TripletTextImage w) (Adam w)) (\<lambda>(model, optim, epoch0).
         Inr (files,
              \<lparr>triplet_train = train_dataset_triplet, triplet_test = test_dataset_triplet,
               fit_model = model, fit_optimizer = optim, n_epochs = 20, log_interval = 5,
               fit_model_id = model_id_train, start_epoch = epoch0\<rparr>)))))))"

section \<open>Example inputs\<close>

text \<open>
  A dataset of one image with its five sentence vectors, served as a single batch, and a
  model whose embeddings have \<open>d\<close> components and are all zero.
\<close>

definition one_item_loader :: "batch list" where
  "one_item_loader =
     [(np_zeros 1 1024, \<lparr>dim1 = 5, dim2 = 300, items = [replicate 5 (replicate 300 0)]\<rparr>)]"

definition zero_model :: "nat \<Rightarrow> unit model" where
  "zero_model d =
     \<lparr>weights = (), embed = (\<lambda>w images texts. Inr (np_zeros (len images) d, np_zeros (len texts) d))\<rparr>"

text \<open>
  The same batch served twice; two annotated images with five sentences each; a file system
  with the feature files and the two images; a checkpoint; and worlds for the two scripts
  built from them (the training world once without and once with a stored checkpoint).
\<close>

definition two_batch_loader :: "batch list" where
  "two_batch_loader = one_item_loader @ one_item_loader"

definition example_annotations :: "item list" where
  "example_annotations =
     [\<lparr>filename = ''1000092795.jpg'',
       sentences = map (\<lambda>s. \<lparr>raw = s\<rparr>) [''a0'', ''a1'', ''a2'', ''a3'', ''a4'']\<rparr>,
      \<lparr>filename = ''10002456.jpg'',
       sentences = map (\<lambda>s. \<lparr>raw = s\<rparr>) [''b0'', ''b1'', ''b2'', ''b3'', ''b4'']\<rparr>]"

definition example_files :: "(nat, nat) file_system" where
  "example_files =
     [TEST_IMG_EMB \<mapsto> Pickle, TEST_TEXT_EMB \<mapsto> Pickle,
      TRAIN_TEXT_EMB \<mapsto> Pickle, VAL_TEXT_EMB \<mapsto> Pickle,
      images_dir @ ''1000092795.jpg'' \<mapsto> Jpeg, images_dir @ ''10002456.jpg'' \<mapsto> Jpeg]"

definition example_checkpoint :: "(nat, nat) checkpoint" where
  "example_checkpoint = \<lparr>model_state_dict = 7, optimizer = 3, epoch = 12\<rparr>"

definition example_model :: "nat model" where
  "example_model =
     \<lparr>weights = 0,
      embed = (\<lambda>w images texts. Inr (np_zeros (len images) 1024, np_zeros (len texts) 1024))\<rparr>"


definition example_train_world :: "(nat, nat, string, string) train_world" where
  "example_train_world =
     \<lparr>fs = example_files, cuda = True, TripletTextImage = example_model,
      Flickr30kEndToEnd = (\<lambda>root text_emb split. Inr text_emb),
      TripletFlickr30kTextToImgEndToEnd = (\<lambda>d split. Inr (split @ '':'' @ d)),
      Adam = 0\<rparr>"

definition resumed_train_world :: "(nat, nat, string, string) train_world" where
  "resumed_train_world =
     example_train_world
       \<lparr>fs := example_files(OUTPUT_MODEL_DIR @ model_id_train @ ''.pth'' \<mapsto> Checkpoint example_checkpoint)\<rparr>"




section \<open>Properties\<close>

subsection \<open>Auxiliary facts\<close>

declare str.simps [simp del]

lemma bind_Inr_iff: "bind m f = Inr y \<longleftrightarrow> (\<exists>x. m = Inr x \<and> f x = Inr y)"
  by (cases m) (simp_all add: bind_def)

lemma bind_Inl [simp]: "bind (Inl e) f = Inl e"
  by (simp add: bind_def)

lemma bind_Inr [simp]: "bind (Inr x) f = f x"
  by (simp add: bind_def)

lemma example_text_labels: "text_labels example_annotations = [1, 1, 1, 1, 1, 2, 2, 2, 2, 2]"
  by code_simp

lemma example_image_labels: "image_labels example_annotations = [1, 2]"
  by code_simp

subsection \<open>The metric is a number between 0 and 1\<close>

lemma apk_loop_bounds:
  "0 \<le> num_hits \<Longrightarrow> num_hits \<le> real i \<Longrightarrow>
   score \<le> apk_loop actual predicted seen i num_hits score \<and>
   apk_loop actual predicted seen i num_hits score
     \<le> score + real (card ((set predicted \<inter> set actual) - set seen))"
proof (induction predicted arbitrary: seen i num_hits score)
  case Nil
  then show ?case by simp
next
  case (Cons p predicted)
  show ?case
  proof (cases "p \<in> set actual \<and> p \<notin> set seen")
    case True
    let ?s = "score + (num_hits + 1) / (real i + 1)"
    have step: "0 \<le> (num_hits + 1) / (real i + 1)" "(num_hits + 1) / (real i + 1) \<le> 1"
      using Cons.prems by simp_all
    have ih: "?s \<le> apk_loop actual predicted (seen @ [p]) (i + 1) (num_hits + 1) ?s \<and>
        apk_loop actual predicted (seen @ [p]) (i + 1) (num_hits + 1) ?s
          \<le> ?s + real (card ((set predicted \<inter> set actual) - set (seen @ [p])))"
      using Cons.prems by (intro Cons.IH) simp_all
    have "(set (p # predicted) \<inter> set actual) - set seen
        = insert p ((set predicted \<inter> set actual) - set (seen @ [p]))"
      using True by auto
    moreover have "p \<notin> (set predicted \<inter> set actual) - set (seen @ [p])" by simp
    ultimately have "card ((set (p # predicted) \<inter> set actual) - set seen)
        = Suc (card ((set predicted \<inter> set actual) - set (seen @ [p])))"
      by (simp del: set_append)
    then have c: "real (card ((set (p # predicted) \<inter> set actual) - set seen))
        = 1 + real (card ((set predicted \<inter> set actual) - set (seen @ [p])))"
      by simp
    have e: "apk_loop actual (p # predicted) seen i num_hits score
        = apk_loop actual predicted (seen @ [p]) (i + 1) (num_hits + 1) ?s"
      using True by simp
    show ?thesis
      unfolding e c using ih step by linarith
  next
    case False
    have ih: "score \<le> apk_loop actual predicted (seen @ [p]) (i + 1) num_hits score \<and>
        apk_loop actual predicted (seen @ [p]) (i + 1) num_hits score
          \<le> score + real (card ((set predicted \<inter> set actual) - set (seen @ [p])))"
      using Cons.prems by (intro Cons.IH) simp_all
    have "(set predicted \<inter> set actual) - set (seen @ [p]) \<subseteq> (set (p # predicted) \<inter> set actual) - set seen"
      by auto
    then have "card ((set predicted \<inter> set actual) - set (seen @ [p]))
        \<le> card ((set (p # predicted) \<inter> set actual) - set seen)"
      by (intro card_mono) auto
    with ih False show ?thesis by auto
  qed
qed

lemma apk_bounds: "0 \<le> apk actual predicted k \<and> apk actual predicted k \<le> 1"
proof (cases "actual = [] \<or> k = 0")
  case True
  then show ?thesis by (auto simp: apk_def)
next
  case False
  let ?s = "apk_loop actual (take k predicted) [] 0 0 0"
  let ?m = "min (length actual) k"
  have m: "0 < ?m" using False by simp
  from apk_loop_bounds[of 0 0 0 actual "take k predicted" "[]"]
  have lo: "0 \<le> ?s" and hi: "?s \<le> real (card (set (take k predicted) \<inter> set actual))"
    by simp_all
  have "card (set (take k predicted) \<inter> set actual) \<le> card (set actual)"
    by (intro card_mono) auto
  also have "\<dots> \<le> length actual" by (rule card_length)
  finally have c1: "card (set (take k predicted) \<inter> set actual) \<le> length actual" .
  have "card (set (take k predicted) \<inter> set actual) \<le> card (set (take k predicted))"
    by (intro card_mono) auto
  also have "\<dots> \<le> length (take k predicted)" by (rule card_length)
  also have "\<dots> \<le> k" by simp
  finally have c2: "card (set (take k predicted) \<inter> set actual) \<le> k" .
  from c1 c2 have "card (set (take k predicted) \<inter> set actual) \<le> ?m" by simp
  with hi have "?s \<le> real ?m" by linarith
  with lo m have "0 \<le> ?s / real ?m \<and> ?s / real ?m \<le> 1"
    by (simp add: divide_le_eq)
  with False show ?thesis by (simp add: apk_def)
qed

lemma mean_bounds:
  assumes "\<forall>x \<in> set xs. 0 \<le> x \<and> x \<le> 1"
  shows "0 \<le> mean xs \<and> mean xs \<le> 1"
proof (cases "xs = []")
  case True
  then show ?thesis by (simp add: mean_def)
next
  case False
  have lo: "0 \<le> sum_list xs" using assms by (intro sum_list_nonneg) auto
  have hi: "sum_list xs \<le> real (length xs)"
    using assms by (induction xs) auto
  from False have "0 < real (length xs)" by simp
  with lo hi False show ?thesis by (simp add: mean_def divide_le_eq)
qed

lemma mapk_bounds: "0 \<le> mapk actual predicted k \<and> mapk actual predicted k \<le> 1"
  unfolding mapk_def by (rule mean_bounds) (auto simp: apk_bounds)

text \<open>
  Claim C5. For all lists of ground-truth label lists and of predicted label lists, and every
  \<open>k\<close>, the value of \<open>mapk\<close> lies between 0 and 1; so does the mAP@k that lines 126-135 of
  the evaluation script compute, whenever they compute one.
\<close>

theorem mapk_bounded:
  "0 \<le> mapk actual predicted k \<and> mapk actual predicted k \<le> 1
   \<and> (compute_map_k data I = Inr map_k \<longrightarrow> 0 \<le> map_k \<and> map_k \<le> 1)"
  by (auto simp: compute_map_k_def bind_Inr_iff mapk_bounds)

theorem mapk_bounded_witness:
  "0 \<le> mapk [[1::int], [2]] [[1, 3, 4, 5, 6], [3, 2, 4, 5, 6]] 5
   \<and> mapk [[1::int], [2]] [[1, 3, 4, 5, 6], [3, 2, 4, 5, 6]] 5 \<le> 1
   \<and> mapk [[1::int], [2]] [[1, 3, 4, 5, 6], [3, 2, 4, 5, 6]] 5 = 3 / 4
   \<and> compute_map_k example_annotations [[0, 1], [1, 0]] = Inr (3 / 4)"
  using mapk_bounded [of "[[1::int], [2]]" "[[1, 3, 4, 5, 6], [3, 2, 4, 5, 6]]" 5
      example_annotations "[[0, 1], [1, 0]]" "3 / 4"]
  by (simp add: mapk_def mean_def apk_def compute_map_k_def predicted_labels_def t_labels_def
      example_text_labels example_image_labels py_index_def k_eval_def)

subsection \<open>Shape of the arrays returned by \<^verbatim>\<open>extract_embeddings\<close>\<close>




lemmas run_defs = extract_embeddings_def extract_writes_def extract_run_def one_item_loader_def
  zero_model_def Let_def slice_rows_def slice_items_def reshape_def len3_def len_def np_zeros_def
  get_embedding_pair_def set_rows_def broadcast_to_def

text \<open>
  Claim C1 says that the arrays returned by \<^verbatim>\<open>extract_embeddings\<close> have \<open>out_size\<close> (4096 in
  the evaluation script) as their second dimension. The code allocates both arrays with 1024
  columns and never reads \<open>out_size\<close>: with the script's values and a model whose embeddings
  have \<open>out_size\<close> components, the first slice assignment raises ValueError; with a model
  whose embeddings have 1024 components the function returns arrays of second dimension 1024.
\<close>

theorem extract_embeddings_out_size_unused:
  "extract_embeddings True one_item_loader (zero_model out_size_eval) out_size_eval model_id_eval
       num_samples_eval = Inl ValueError
   \<and> map_sum id (\<lambda>(image_embeddings, text_embeddings). (ncols image_embeddings, ncols text_embeddings))
       (extract_embeddings True one_item_loader (zero_model 1024) out_size_eval model_id_eval
          num_samples_eval) = Inr (1024, 1024)
   \<and> out_size_eval = 4096"
  by (simp add: run_defs out_size_eval_def num_samples_eval_def)

subsection \<open>Which rows \<^verbatim>\<open>extract_embeddings\<close> writes\<close>

lemma set_rows_whole:
  assumes "len v = n" "ncols v = ncols a" "len a = n"
  shows "set_rows a 0 n v = Inr (a\<lparr>rows := rows v\<rparr>)"
  using assms by (simp add: set_rows_def broadcast_to_def len_def)

lemma extract_run_single_batch:
  assumes ni: "num_samples \<le> len images" and nt: "num_samples \<le> len3 texts"
    and rs: "reshape (slice_items texts num_samples) (num_samples * 5) 300 = Inr text_batch"
    and emb: "get_embedding_pair model (slice_rows images num_samples) text_batch = Inr (im_emb, text_emb)"
    and shp: "len im_emb = num_samples" "ncols im_emb = 1024"
             "len text_emb = num_samples * 5" "ncols text_emb = 1024"
  shows "extract_run True [(images, texts)] model out_size model_id num_samples =
           Inr (im_emb, text_emb, [(Image_embeddings, 0, num_samples), (Text_embeddings, 0, num_samples * 5)])"
proof -
  have li: "len (slice_rows images num_samples) = num_samples"
    using ni by (simp add: len_def slice_rows_def)
  have lt: "len3 (slice_items texts num_samples) = num_samples"
    using nt by (simp add: len3_def slice_items_def)
  have w1: "set_rows (np_zeros num_samples 1024) 0 num_samples im_emb = Inr im_emb"
    using shp by (subst set_rows_whole) (simp_all add: np_zeros_def len_def)
  have w2: "set_rows (np_zeros (num_samples * 5) 1024) 0 (num_samples * 5) text_emb = Inr text_emb"
    using shp by (subst set_rows_whole) (simp_all add: np_zeros_def len_def)
  show ?thesis
    by (simp add: extract_run_def Let_def li lt rs emb w1 w2)
qed

lemma times_written_single:
  "times_written [(Image_embeddings, 0, n), (Text_embeddings, 0, m)] Image_embeddings r = (if r < n then 1 else 0)"
  "times_written [(Image_embeddings, 0, n), (Text_embeddings, 0, m)] Text_embeddings r = (if r < m then 1 else 0)"
  by (simp_all add: times_written_def)

lemma extract_loop_writes:
  "extract_loop model num_samples dataloader ie te k ws = Inr (ie', te', ws') \<Longrightarrow>
   \<exists>new. ws' = ws @ new"
proof (induction dataloader arbitrary: ie te k ws)
  case Nil
  then show ?case by simp
next
  case (Cons b dataloader)
  obtain images texts where b: "b = (images, texts)" by (cases b)
  from Cons.prems obtain ie1 te1 k1 nw where
    "extract_loop model num_samples dataloader ie1 te1 k1 (ws @ nw) = Inr (ie', te', ws')"
    unfolding b by (auto simp: Let_def bind_Inr_iff)
  from Cons.IH[OF this] show ?case by auto
qed

lemma times_written_append:
  "times_written (ws @ new) a r = times_written ws a r + times_written new a r"
  by (simp add: times_written_def)

lemma extract_writes_two_batches:
  assumes run: "extract_writes True ((images1, texts1) # (images2, texts2) # dataloader) model out_size model_id num_samples = Inr writes"
    and n1: "n1 = len (slice_rows images1 num_samples)" "len3 (slice_items texts1 num_samples) = n1" "1 \<le> n1"
    and n2: "1 \<le> len3 (slice_items texts2 num_samples)"
  shows "2 \<le> times_written writes Text_embeddings n1"
proof -
  let ?n2 = "len (slice_rows images2 num_samples)" and ?m2 = "len3 (slice_items texts2 num_samples)"
  let ?first = "[(Image_embeddings, 0, n1), (Text_embeddings, 0, n1 * 5),
                 (Image_embeddings, n1, n1 + ?n2), (Text_embeddings, n1, n1 + ?m2 * 5)]"
  from run obtain ie te ie2 te2 where
    "extract_loop model num_samples dataloader ie2 te2 (n1 + ?n2) ?first = Inr (ie, te, writes)"
    by (auto simp: extract_writes_def extract_run_def Let_def bind_Inr_iff n1(2) n1(1)[symmetric])
  from extract_loop_writes[OF this] obtain new where "writes = ?first @ new" by blast
  moreover have "times_written ?first Text_embeddings n1 = 2"
    using n1(3) n2 by (simp add: times_written_def)
  ultimately show ?thesis by (simp only: times_written_append)
qed


lemma DataLoader_whole_dataset:
  assumes "length_dataset ds = len (all_images ds)" "len3 (all_texts ds) = len (all_images ds)"
    "0 < len (all_images ds)"
  shows "DataLoader ds (length_dataset ds) = Inr [(all_images ds, all_texts ds)]"
proof -
  let ?n = "len (all_images ds)"
  have "(?n + ?n - 1) div ?n = 1" using assms(3) by (intro div_nat_eqI) simp_all
  then have "[0..<(?n + ?n - 1) div ?n] = [0]" by simp
  then show ?thesis
    using assms by (simp add: DataLoader_def between_rows_def between_items_def len_def len3_def)
qed

text \<open>
  Claim C10, as stated, fails when the single batch holds fewer than \<open>num_samples\<close> images:
  with a dataset of one image and \<open>num_samples = 2\<close> the function returns arrays of 2 and 10
  rows, and row 1 of the image array is never written.
\<close>

theorem extract_embeddings_row_coverage_counterexample:
  "map_sum id (\<lambda>(image_embeddings, text_embeddings). (len image_embeddings, len text_embeddings))
       (extract_embeddings True one_item_loader (zero_model 1024) out_size_eval model_id_eval 2)
     = Inr (2, 10)
   \<and> extract_writes True one_item_loader (zero_model 1024) out_size_eval model_id_eval 2
     = Inr [(Image_embeddings, 0, 1), (Text_embeddings, 0, 5)]
   \<and> times_written [(Image_embeddings, 0, 1), (Text_embeddings, 0, 5)] Image_embeddings 1 = 0"
  by (simp add: run_defs times_written_def)

text \<open>
  Claim C10, amended. When the dataloader yields a single batch that holds at least
  \<open>num_samples\<close> images with their texts, and the model returns one embedding of 1024
  components per image and per sentence, \<^verbatim>\<open>extract_embeddings\<close> returns exactly the model's
  embeddings, every row of the image array and of the text array is written exactly once,
  and every slice ends inside its array. When the dataloader yields two or more batches, the
  first two non-empty, and the function returns, the text row at the offset of the second
  batch is written at least twice: the offset advances by the number of images although each
  image has five text rows.
\<close>

theorem extract_embeddings_single_batch:
  "(num_samples \<le> len images \<and> num_samples \<le> len3 texts
      \<and> reshape (slice_items texts num_samples) (num_samples * 5) 300 = Inr text_batch
      \<and> get_embedding_pair model (slice_rows images num_samples) text_batch = Inr (im_emb, text_emb)
      \<and> len im_emb = num_samples \<and> ncols im_emb = 1024
      \<and> len text_emb = num_samples * 5 \<and> ncols text_emb = 1024
    \<longrightarrow> extract_embeddings True [(images, texts)] model out_size model_id num_samples
          = Inr (im_emb, text_emb)
        \<and> (\<exists>writes. extract_writes True [(images, texts)] model out_size model_id num_samples = Inr writes
              \<and> (\<forall>r < num_samples. times_written writes Image_embeddings r = 1)
              \<and> (\<forall>r < num_samples * 5. times_written writes Text_embeddings r = 1)
              \<and> in_bounds writes num_samples (num_samples * 5)))
   \<and> (extract_writes True ((images1, texts1) # (images2, texts2) # dataloader) model out_size model_id
          num_samples = Inr writes2
      \<and> 1 \<le> len (slice_rows images1 num_samples)
      \<and> len3 (slice_items texts1 num_samples) = len (slice_rows images1 num_samples)
      \<and> 1 \<le> len3 (slice_items texts2 num_samples)
    \<longrightarrow> 2 \<le> times_written writes2 Text_embeddings (len (slice_rows images1 num_samples)))"
proof (intro conjI impI)
  assume a: "num_samples \<le> len images \<and> num_samples \<le> len3 texts
      \<and> reshape (slice_items texts num_samples) (num_samples * 5) 300 = Inr text_batch
      \<and> get_embedding_pair model (slice_rows images num_samples) text_batch = Inr (im_emb, text_emb)
      \<and> len im_emb = num_samples \<and> ncols im_emb = 1024
      \<and> len text_emb = num_samples * 5 \<and> ncols text_emb = 1024"
  then have run: "extract_run True [(images, texts)] model out_size model_id num_samples =
      Inr (im_emb, text_emb, [(Image_embeddings, 0, num_samples), (Text_embeddings, 0, num_samples * 5)])"
    by (intro extract_run_single_batch[where text_batch = text_batch]) simp_all
  show "extract_embeddings True [(images, texts)] model out_size model_id num_samples = Inr (im_emb, text_emb)"
    by (simp add: extract_embeddings_def run)
  show "\<exists>writes. extract_writes True [(images, texts)] model out_size model_id num_samples = Inr writes
      \<and> (\<forall>r < num_samples. times_written writes Image_embeddings r = 1)
      \<and> (\<forall>r < num_samples * 5. times_written writes Text_embeddings r = 1)
      \<and> in_bounds writes num_samples (num_samples * 5)"
    by (simp add: extract_writes_def run times_written_single in_bounds_def)
next
  assume b: "extract_writes True ((images1, texts1) # (images2, texts2) # dataloader) model out_size model_id
          num_samples = Inr writes2
      \<and> 1 \<le> len (slice_rows images1 num_samples)
      \<and> len3 (slice_items texts1 num_samples) = len (slice_rows images1 num_samples)
      \<and> 1 \<le> len3 (slice_items texts2 num_samples)"
  then have "extract_writes True ((images1, texts1) # (images2, texts2) # dataloader) model out_size
      model_id num_samples = Inr writes2"
    and "len3 (slice_items texts1 num_samples) = len (slice_rows images1 num_samples)"
    and "1 \<le> len (slice_rows images1 num_samples)" and "1 \<le> len3 (slice_items texts2 num_samples)"
    by simp_all
  from extract_writes_two_batches[OF this(1) refl this(2,3,4)]
  show "2 \<le> times_written writes2 Text_embeddings (len (slice_rows images1 num_samples))" .
qed

lemma two_batch_run:
  "extract_writes True two_batch_loader (zero_model 1024) out_size_eval model_id_eval 2
     = Inr [(Image_embeddings, 0, 1), (Text_embeddings, 0, 5),
            (Image_embeddings, 1, 2), (Text_embeddings, 1, 6)]"
  by (simp add: run_defs two_batch_loader_def)

theorem extract_embeddings_single_batch_witness:
  "extract_embeddings True one_item_loader (zero_model 1024) out_size_eval model_id_eval 1
     = Inr (np_zeros 1 1024, np_zeros 5 1024)
   \<and> (\<exists>writes. extract_writes True one_item_loader (zero_model 1024) out_size_eval model_id_eval 1 = Inr writes
         \<and> times_written writes Image_embeddings 0 = 1
         \<and> times_written writes Text_embeddings 4 = 1
         \<and> in_bounds writes 1 5)
   \<and> 2 \<le> times_written [(Image_embeddings, 0, 1), (Text_embeddings, 0, 5),
                          (Image_embeddings, 1, 2), (Text_embeddings, 1, 6)] Text_embeddings 1"
proof -
  let ?images = "np_zeros 1 1024"
  let ?texts = "\<lparr>dim1 = 5, dim2 = 300, items = [replicate 5 (replicate 300 (0::real))]\<rparr>"
  let ?tb = "\<lparr>ncols = 300, rows = map (\<lambda>i. take 300 (drop (i * 300)
      (concat (concat (items (slice_items ?texts 1)))))) [0..<5]\<rparr>"
  let ?ws = "[(Image_embeddings, 0, 1), (Text_embeddings, 0, 5), (Image_embeddings, 1, 2),
      (Text_embeddings, 1, 6)] :: slice_write list"
  have pre1: "reshape (slice_items ?texts 1) (1 * 5) 300 = Inr ?tb"
    by (simp add: reshape_def len3_def slice_items_def)
  have pre2: "get_embedding_pair (zero_model 1024) (slice_rows ?images 1) ?tb
      = Inr (np_zeros 1 1024, np_zeros 5 1024)"
    by (simp add: get_embedding_pair_def zero_model_def len_def slice_rows_def np_zeros_def)
  have pre3: "extract_writes True ((?images, ?texts) # (?images, ?texts) # []) (zero_model 1024)
      out_size_eval model_id_eval 2 = Inr ?ws"
    using two_batch_run by (simp add: two_batch_loader_def one_item_loader_def)
  have sizes: "len ?images = 1" "len3 ?texts = 1" "len (np_zeros 5 1024) = 5" "ncols (np_zeros 5 1024) = 1024"
    "ncols ?images = 1024" "len (slice_rows ?images 2) = 1" "len3 (slice_items ?texts 2) = 1"
    by (simp_all add: len_def len3_def np_zeros_def slice_rows_def slice_items_def)
  have single: "extract_embeddings True [(?images, ?texts)] (zero_model 1024) out_size_eval model_id_eval 1
          = Inr (np_zeros 1 1024, np_zeros 5 1024)
        \<and> (\<exists>writes. extract_writes True [(?images, ?texts)] (zero_model 1024) out_size_eval model_id_eval 1 = Inr writes
              \<and> (\<forall>r < 1. times_written writes Image_embeddings r = 1)
              \<and> (\<forall>r < 1 * 5. times_written writes Text_embeddings r = 1)
              \<and> in_bounds writes 1 (1 * 5))"
    using extract_embeddings_single_batch [of 1 ?images ?texts ?tb "zero_model 1024"
      "np_zeros 1 1024" "np_zeros 5 1024" out_size_eval model_id_eval] pre1 pre2 sizes
    by simp
  have twice: "2 \<le> times_written ?ws Text_embeddings (len (slice_rows ?images 2))"
    using extract_embeddings_single_batch [of 2 _ _ _ "zero_model 1024" _ _ out_size_eval model_id_eval
      ?images ?texts ?images ?texts "[]" ?ws] pre3 sizes
    by simp
  from single twice sizes show ?thesis
    by (auto simp: one_item_loader_def)
qed

subsection \<open>Nearest neighbours\<close>







subsection \<open>Ground truth and labels\<close>

lemma update_fresh: "key \<notin> fst ` set d \<Longrightarrow> AList.update key v d = d @ [(key, v)]"
  by (induction d) auto

lemma sentence_loop_eq:
  "map fst d = [0..<c] \<Longrightarrow>
   sentence_loop ss d c = (d @ zip [c..<c + length ss] (map raw ss), c + length ss)"
proof (induction ss arbitrary: d c)
  case Nil
  then show ?case by simp
next
  case (Cons s ss)
  have fresh: "c \<notin> fst ` set d"
  proof -
    have "fst ` set d = set (map fst d)" by simp
    also have "\<dots> = {0..<c}" using Cons.prems by simp
    finally show ?thesis by simp
  qed
  have keys': "map fst (d @ [(c, raw s)]) = [0..<c + 1]"
    using Cons.prems by simp
  have "[c..<c + length (s # ss)] = c # [c + 1..<c + 1 + length ss]"
    by (simp add: upt_rec)
  then show ?case
    using Cons.IH[OF keys'] by (simp add: update_fresh[OF fresh])
qed

lemma ground_truth_loop_sentences:
  "map fst d = [0..<c] \<Longrightarrow>
   ground_truth_loop data gt d c = (gt', d', c') \<Longrightarrow>
   c' = c + length (concat (map sentences data)) \<and>
   map fst d' = [0..<c'] \<and>
   map snd d' = map snd d @ map raw (concat (map sentences data))"
proof (induction data arbitrary: gt d c)
  case Nil
  then show ?case by simp
next
  case (Cons it data)
  let ?d1 = "d @ zip [c..<c + length (sentences it)] (map raw (sentences it))"
  have k1: "map fst ?d1 = [0..<c + length (sentences it)]"
    using Cons.prems(1) by (simp add: upt_add_eq_append[symmetric])
  from Cons.prems(2) have
    "ground_truth_loop data (AList.update (filename it) (map raw (sentences it)) gt) ?d1
       (c + length (sentences it)) = (gt', d', c')"
    by (simp add: sentence_loop_eq[OF Cons.prems(1)])
  from Cons.IH[OF k1 this] show ?case by simp
qed

lemma concat_uniform_length:
  "\<forall>xs \<in> set xss. length xs = n \<Longrightarrow> length (concat xss) = n * length xss"
  by (induction xss) auto

lemma concat_uniform_nth:
  "\<forall>xs \<in> set xss. length xs = n \<Longrightarrow> m < n * length xss \<Longrightarrow>
   concat xss ! m = xss ! (m div n) ! (m mod n)"
proof (induction xss arbitrary: m)
  case Nil
  then show ?case by simp
next
  case (Cons xs xss)
  have n: "0 < n" using Cons.prems(2) by (cases n) auto
  show ?case
  proof (cases "m < n")
    case True
    with Cons.prems show ?thesis by (simp add: nth_append)
  next
    case False
    then have m: "m - n < n * length xss" using Cons.prems(2) by simp
    have d: "m div n = Suc ((m - n) div n)" "m mod n = (m - n) mod n"
      using False n by (simp_all add: le_div_geq le_mod_geq)
    from Cons.IH[OF _ m] Cons.prems(1) False show ?thesis
      by (simp add: nth_append d)
  qed
qed

lemma dict_get_upto:
  assumes "map fst d = [0..<n]" "m < n"
  shows "dict_get d m = Inr (map snd d ! m)"
proof -
  have len: "length d = n" using assms(1) by (metis length_map length_upt diff_zero)
  have "d = zip [0..<n] (map snd d)"
    using assms(1) by (metis zip_map_fst_snd)
  then have "map_of d ([0..<n] ! m) = Some (map snd d ! m)"
    using map_of_zip_nth[of "[0..<n]" "map snd d" m] assms(2) len by simp
  with assms(2) show ?thesis by (simp add: dict_get_def)
qed

lemma length_text_labels: "length (text_labels data) = 5 * length data"
  unfolding text_labels_def by (subst concat_uniform_length[where n = 5]) (auto simp del: upt_Suc)

lemma text_labels_nth:
  assumes "m < 5 * length data"
  shows "text_labels data ! m = int (m div 5) + 1"
proof -
  have d: "m div 5 < length data" using assms by simp
  have "text_labels data ! m =
      map (\<lambda>j. map (\<lambda>i. int j) [0..<5]) [1..<length data + 1] ! (m div 5) ! (m mod 5)"
    unfolding text_labels_def using assms
    by (subst concat_uniform_nth[where n = 5]) (auto simp del: upt_Suc)
  also have "\<dots> = int (m div 5) + 1"
    using d by (simp del: upt_Suc)
  finally show ?thesis .
qed

lemma image_labels_nth: "i < length data \<Longrightarrow> image_labels data ! i = int i + 1"
  by (simp add: image_labels_def del: upt_Suc)

lemma length_image_labels: "length (image_labels data) = length data"
  by (simp add: image_labels_def del: upt_Suc)

text \<open>
  Claim C6. If each of the first \<open>num_samples\<close> annotated items has exactly 5 sentences, then
  for these items \<open>data\<close> the image labels are \<open>1, \<dots>, len(data)\<close>, the sentence dictionary
  has exactly \<open>5 * len(data)\<close> entries, with keys \<open>0, \<dots>, 5 * len(data) - 1\<close> and entry \<open>m\<close>
  the sentence \<open>m mod 5\<close> of item \<open>m div 5\<close>, and the text labels are \<open>5 * len(data)\<close> many,
  the one at position \<open>m\<close> being \<open>m div 5 + 1\<close>.
\<close>

theorem ground_truth_five_sentences:
  assumes five: "\<forall>it \<in> set (first_samples annotations). length (sentences it) = 5"
    and data: "data = first_samples annotations"
  shows "image_labels data = map int [1..<length data + 1]
       \<and> (\<exists>gt dict_sentences.
             ground_truth data = (gt, dict_sentences, 5 * length data)
             \<and> length dict_sentences = 5 * length data
             \<and> keys dict_sentences = [0..<5 * length data]
             \<and> (\<forall>m < 5 * length data.
                   dict_get dict_sentences m = Inr (raw (sentences (data ! (m div 5)) ! (m mod 5)))))
       \<and> length (text_labels data) = 5 * length data
       \<and> (\<forall>m < 5 * length data. text_labels data ! m = int (m div 5) + 1)"
proof -
  obtain gt d c where g: "ground_truth data = (gt, d, c)" by (cases "ground_truth data")
  have u: "\<forall>xs \<in> set (map sentences data). length xs = 5"
    using five data by simp
  have tot: "length (concat (map sentences data)) = 5 * length data"
    using concat_uniform_length[OF u] by simp
  from g have "ground_truth_loop data [] [] 0 = (gt, d, c)" by (simp add: ground_truth_def)
  from ground_truth_loop_sentences[OF _ this]
  have c: "c = 5 * length data" and k: "map fst d = [0..<5 * length data]"
    and v: "map snd d = map raw (concat (map sentences data))"
    by (simp_all add: tot)
  have l: "length d = 5 * length data" using k by (metis length_map length_upt diff_zero)
  have caption: "dict_get d m = Inr (raw (sentences (data ! (m div 5)) ! (m mod 5)))"
    if m: "m < 5 * length data" for m
  proof -
    have "m div 5 < length data" using m by simp
    moreover have "m mod 5 < length (sentences (data ! (m div 5)))"
      using five data calculation by simp
    ultimately show ?thesis
      using dict_get_upto[OF k m] concat_uniform_nth[OF u, of m] m tot
      by (simp add: v nth_map)
  qed
  show ?thesis
    using g c l k caption length_text_labels text_labels_nth
    by (auto simp: image_labels_def keys_def)
qed


theorem ground_truth_five_sentences_witness:
  "length (text_labels example_annotations) = 10
   \<and> text_labels example_annotations ! 7 = 2
   \<and> image_labels example_annotations = [1, 2]
   \<and> (\<exists>gt dict_sentences. ground_truth example_annotations = (gt, dict_sentences, 10)
         \<and> length dict_sentences = 10 \<and> dict_get dict_sentences 7 = Inr ''b2'')"
proof -
  have fs: "first_samples example_annotations = example_annotations"
    by (simp add: first_samples_def example_annotations_def num_samples_eval_def)
  have five: "\<forall>it \<in> set (first_samples example_annotations). length (sentences it) = 5"
    unfolding fs by (simp add: example_annotations_def)
  have n: "length example_annotations = 2" by (simp add: example_annotations_def)
  have s: "raw (sentences (example_annotations ! 1) ! 2) = ''b2''"
    by (simp add: example_annotations_def)
  from ground_truth_five_sentences [OF five fs[symmetric]] n s show ?thesis
    by (auto simp: numeral_2_eq_2)
qed

subsection \<open>What the metric is computed over\<close>







subsection \<open>Positions and labels\<close>

lemma ground_truth_loop_keys:
  "distinct (keys gt @ map filename data) \<Longrightarrow>
   ground_truth_loop data gt d c = (gt', d', c') \<Longrightarrow>
   keys gt' = keys gt @ map filename data"
proof (induction data arbitrary: gt d c)
  case Nil
  then show ?case by simp
next
  case (Cons it data)
  obtain d1 c1 where sl: "sentence_loop (sentences it) d c = (d1, c1)"
    by (cases "sentence_loop (sentences it) d c")
  have fresh: "filename it \<notin> fst ` set gt"
    using Cons.prems(1) by (auto simp: keys_def)
  let ?gt1 = "gt @ [(filename it, map raw (sentences it))]"
  have loop: "ground_truth_loop data ?gt1 d1 c1 = (gt', d', c')"
    using Cons.prems(2) by (simp add: sl update_fresh[OF fresh])
  have "distinct (keys ?gt1 @ map filename data)"
    using Cons.prems(1) by (simp add: keys_def)
  from Cons.IH[OF this loop] show ?case by (simp add: keys_def)
qed

lemma ground_truth_keys:
  assumes "distinct (map filename data)" "ground_truth data = (gt, d, c)"
  shows "keys gt = map filename data"
  using ground_truth_loop_keys[of "[]" data "[]" 0 gt d c] assms
  by (simp add: ground_truth_def keys_def)

text \<open>
  Claim C9. For \<open>0 \<le> i < N\<close> the predicted label of the retrieved position \<open>i\<close> is
  \<open>image_labels[i] = i + 1\<close>, and looking the label \<open>i + 1\<close> up as a file name reads the key at
  position \<open>i\<close> of the ground-truth dictionary again; conversely a label \<open>1 \<le> L \<le> N\<close> is the
  label of position \<open>L - 1\<close>. When the file names of the items are pairwise different, that
  key is the file name of item \<open>i\<close>.
\<close>

theorem index_label_round_trip:
  "(i < length data \<longrightarrow>
      py_index (image_labels data) (int i) = Inr (int i + 1)
      \<and> filename_of_label gt (int i + 1) = py_index (keys gt) (int i))
   \<and> (1 \<le> L \<and> L \<le> int (length data) \<longrightarrow>
        py_index (image_labels data) (L - 1) = Inr L)
   \<and> (distinct (map filename data) \<and> ground_truth data = (gt0, dict_sentences, n) \<and> i < length data \<longrightarrow>
        filename_of_label gt0 (int i + 1) = Inr (filename (data ! i)))"
proof (intro conjI impI)
  assume i: "i < length data"
  then show "py_index (image_labels data) (int i) = Inr (int i + 1)"
    by (simp add: py_index_def length_image_labels image_labels_nth)
  show "filename_of_label gt (int i + 1) = py_index (keys gt) (int i)"
    by (simp add: filename_of_label_def)
next
  assume L: "1 \<le> L \<and> L \<le> int (length data)"
  then have "nat (L - 1) < length data" by linarith
  from image_labels_nth[OF this] L show "py_index (image_labels data) (L - 1) = Inr L"
    by (simp add: py_index_def length_image_labels)
next
  assume a: "distinct (map filename data) \<and> ground_truth data = (gt0, dict_sentences, n) \<and> i < length data"
  then have "keys gt0 = map filename data" using ground_truth_keys by blast
  with a show "filename_of_label gt0 (int i + 1) = Inr (filename (data ! i))"
    by (simp add: filename_of_label_def py_index_def)
qed

theorem index_label_round_trip_witness:
  "py_index (image_labels example_annotations) 1 = Inr 2
   \<and> filename_of_label (fst (ground_truth example_annotations)) 2 = Inr ''10002456.jpg''
   \<and> py_index (keys (fst (ground_truth example_annotations))) 1 = Inr ''10002456.jpg''
   \<and> py_index (image_labels example_annotations) (2 - 1) = Inr 2"
proof -
  have n: "length example_annotations = 2" "distinct (map filename example_annotations)"
    "filename (example_annotations ! 1) = ''10002456.jpg''"
    by (simp_all add: example_annotations_def)
  note inst = index_label_round_trip [of 1 example_annotations "fst (ground_truth example_annotations)" 2
      "fst (ground_truth example_annotations)" "fst (snd (ground_truth example_annotations))"
      "snd (snd (ground_truth example_annotations))"]
  from inst n show ?thesis by auto
qed

subsection \<open>The training script resumes from a checkpoint\<close>

lemma str_1000: "str 1000 = ''1000''"
  by (simp add: str.simps)


lemma checkpoint_path_train:
  "OUTPUT_MODEL_DIR @ model_id_train @ ''.pth'' = ''./models/TextToImage_Resnet_BERT_textagg_out_size_1000.pth''"
  by (simp add: OUTPUT_MODEL_DIR_def model_id_train_def out_size_train_def str_1000)


lemma restore_checkpoint_files:
  "restore_checkpoint (if \<not> path_exists files OUTPUT_MODEL_DIR then makedirs files OUTPUT_MODEL_DIR else files) m opt
     = restore_checkpoint files m opt"
  by (simp add: restore_checkpoint_def path_exists_def makedirs_def torch_load_def
      checkpoint_path_train) (simp add: OUTPUT_MODEL_DIR_def)

lemma restore_checkpoint_Some:
  "files (OUTPUT_MODEL_DIR @ model_id_train @ ''.pth'') = Some (Checkpoint c) \<Longrightarrow>
   restore_checkpoint files m opt = Inr (load_state_dict m (model_state_dict c), optimizer c, epoch c)"
  by (simp add: restore_checkpoint_def path_exists_def torch_load_def)

lemma restore_checkpoint_None:
  "files (OUTPUT_MODEL_DIR @ model_id_train @ ''.pth'') = None \<Longrightarrow>
   restore_checkpoint files m opt = Inr (m, opt, 0)"
  by (simp add: restore_checkpoint_def path_exists_def)

lemma main_train_eq:
  assumes "Flickr30kEndToEnd w ROOT_PATH TRAIN_TEXT_EMB ''train'' = Inr train_dataset"
    "Flickr30kEndToEnd w ROOT_PATH VAL_TEXT_EMB ''test'' = Inr test_dataset"
    "TripletFlickr30kTextToImgEndToEnd w train_dataset ''train'' = Inr train_triplet"
    "TripletFlickr30kTextToImgEndToEnd w test_dataset ''test'' = Inr test_triplet"
    "restore_checkpoint (fs w) (TripletTextImage w) (Adam w) = Inr (m, opt, e)"
  shows "main_train w =
     Inr (if \<not> path_exists (fs w) OUTPUT_MODEL_DIR then makedirs (fs w) OUTPUT_MODEL_DIR else fs w,
          \<lparr>triplet_train = train_triplet, triplet_test = test_triplet,
           fit_model = m, fit_optimizer = opt, n_epochs = 20, log_interval = 5,
           fit_model_id = model_id_train, start_epoch = e\<rparr>)"
  unfolding main_train_def Let_def restore_checkpoint_files
  by (simp add: assms)

text \<open>
  Claim C4. The checkpoint path of the training script is
  \<^verbatim>\<open>./models/TextToImage_Resnet_BERT_textagg_out_size_1000.pth\<close>. When the datasets can be
  constructed: if a checkpoint is stored there, \<open>fit\<close> is called with the model parameters,
  the optimizer state and the epoch of the checkpoint; if nothing is stored there, \<open>fit\<close> is
  called with the freshly constructed model and optimizer and with \<open>start_epoch = 0\<close>.
\<close>

theorem training_resumes_from_checkpoint:
  assumes "Flickr30kEndToEnd w ROOT_PATH TRAIN_TEXT_EMB ''train'' = Inr train_dataset"
    "Flickr30kEndToEnd w ROOT_PATH VAL_TEXT_EMB ''test'' = Inr test_dataset"
    "TripletFlickr30kTextToImgEndToEnd w train_dataset ''train'' = Inr train_triplet"
    "TripletFlickr30kTextToImgEndToEnd w test_dataset ''test'' = Inr test_triplet"
  shows "OUTPUT_MODEL_DIR @ model_id_train @ ''.pth''
           = ''./models/TextToImage_Resnet_BERT_textagg_out_size_1000.pth''
       \<and> (fs w (OUTPUT_MODEL_DIR @ model_id_train @ ''.pth'') = Some (Checkpoint c) \<longrightarrow>
            (\<exists>files call. main_train w = Inr (files, call)
               \<and> weights (fit_model call) = model_state_dict c
               \<and> embed (fit_model call) = embed (TripletTextImage w)
               \<and> fit_optimizer call = optimizer c
               \<and> start_epoch call = epoch c))
       \<and> (fs w (OUTPUT_MODEL_DIR @ model_id_train @ ''.pth'') = None \<longrightarrow>
            (\<exists>files call. main_train w = Inr (files, call)
               \<and> fit_model call = TripletTextImage w
               \<and> fit_optimizer call = Adam w
               \<and> start_epoch call = 0))"
  using main_train_eq[OF assms restore_checkpoint_Some] main_train_eq[OF assms restore_checkpoint_None]
  by (simp add: checkpoint_path_train load_state_dict_def)

lemmas path_defs = ROOT_PATH_def TEST_IMG_EMB_def TEST_TEXT_EMB_def TRAIN_TEXT_EMB_def VAL_TEXT_EMB_def
  test_json_def images_dir_def

lemma example_train_datasets:
  "Flickr30kEndToEnd example_train_world ROOT_PATH TRAIN_TEXT_EMB ''train'' = Inr TRAIN_TEXT_EMB"
  "Flickr30kEndToEnd example_train_world ROOT_PATH VAL_TEXT_EMB ''test'' = Inr VAL_TEXT_EMB"
  "TripletFlickr30kTextToImgEndToEnd example_train_world TRAIN_TEXT_EMB ''train'' = Inr (''train:'' @ TRAIN_TEXT_EMB)"
  "TripletFlickr30kTextToImgEndToEnd example_train_world VAL_TEXT_EMB ''test'' = Inr (''test:'' @ VAL_TEXT_EMB)"
  by (simp_all add: example_train_world_def)

lemma resumed_train_datasets:
  "Flickr30kEndToEnd resumed_train_world ROOT_PATH TRAIN_TEXT_EMB ''train'' = Inr TRAIN_TEXT_EMB"
  "Flickr30kEndToEnd resumed_train_world ROOT_PATH VAL_TEXT_EMB ''test'' = Inr VAL_TEXT_EMB"
  "TripletFlickr30kTextToImgEndToEnd resumed_train_world TRAIN_TEXT_EMB ''train'' = Inr (''train:'' @ TRAIN_TEXT_EMB)"
  "TripletFlickr30kTextToImgEndToEnd resumed_train_world VAL_TEXT_EMB ''test'' = Inr (''test:'' @ VAL_TEXT_EMB)"
  by (simp_all add: resumed_train_world_def example_train_world_def)

lemma example_no_checkpoint:
  "fs example_train_world (OUTPUT_MODEL_DIR @ model_id_train @ ''.pth'') = None"
  by (simp add: checkpoint_path_train example_train_world_def example_files_def path_defs)

lemma resumed_checkpoint:
  "fs resumed_train_world (OUTPUT_MODEL_DIR @ model_id_train @ ''.pth'') = Some (Checkpoint example_checkpoint)"
  by (simp add: resumed_train_world_def)

theorem training_resumes_from_checkpoint_witness:
  "(\<exists>files call. main_train resumed_train_world = Inr (files, call)
      \<and> weights (fit_model call) = 7 \<and> fit_optimizer call = 3 \<and> start_epoch call = 12)
   \<and> (\<exists>files call. main_train example_train_world = Inr (files, call)
      \<and> fit_model call = example_model \<and> fit_optimizer call = 0 \<and> start_epoch call = 0)"
proof -
  from training_resumes_from_checkpoint [OF resumed_train_datasets, of example_checkpoint] resumed_checkpoint
  have a: "\<exists>files call. main_train resumed_train_world = Inr (files, call)
      \<and> weights (fit_model call) = 7 \<and> fit_optimizer call = 3 \<and> start_epoch call = 12"
    by (auto simp: example_checkpoint_def)
  from training_resumes_from_checkpoint [OF example_train_datasets] example_no_checkpoint
  have b: "\<exists>files call. main_train example_train_world = Inr (files, call)
      \<and> fit_model call = example_model \<and> fit_optimizer call = 0 \<and> start_epoch call = 0"
    by (auto simp: example_train_world_def)
  from a b show ?thesis by simp
qed

subsection \<open>Missing files\<close>











end
